theory Spec2Isabelle
  imports Complex_Main
begin

section \<open>Tensors\<close>

text \<open>
  The engine computes on torch tensors of rank 2 (one row per point, shapes (N, D))
  and, after a \<^verbatim>\<open>squeeze()\<close>, of rank 1. Scalars are Python and torch
  floats, idealised here as real numbers: rounding, infinities and NaN are not
  modelled (a torch division by zero yields inf or NaN and raises nothing; HOL's
  \<open>x / 0\<close> is \<open>0\<close>).
\<close>

datatype tensor = Vec "real list" | Mat "real list list"

fun tmap :: "(real \<Rightarrow> real) \<Rightarrow> tensor \<Rightarrow> tensor" where
  "tmap f (Vec xs) = Vec (map f xs)"
| "tmap f (Mat rs) = Mat (map (map f) rs)"

text \<open>
  Elementwise binary operations. On equal shapes they work entry by entry. A
  rank-1 operand against a rank-2 one is applied to every row, which is torch's
  broadcasting of the shapes (D) and (N, D).
\<close>

fun tzip :: "(real \<Rightarrow> real \<Rightarrow> real) \<Rightarrow> tensor \<Rightarrow> tensor \<Rightarrow> tensor" where
  "tzip f (Mat a) (Mat b) = Mat (map2 (map2 f) a b)"
| "tzip f (Vec a) (Vec b) = Vec (map2 f a b)"
| "tzip f (Mat a) (Vec b) = Mat (map (\<lambda>r. map2 f r b) a)"
| "tzip f (Vec a) (Mat b) = Mat (map (\<lambda>r. map2 f a r) b)"

text \<open>\<^verbatim>\<open>a + b\<close> and \<^verbatim>\<open>a - b\<close> on tensors.\<close>

definition tadd :: "tensor \<Rightarrow> tensor \<Rightarrow> tensor" where
  "tadd a b = tzip (+) a b"

definition tsub :: "tensor \<Rightarrow> tensor \<Rightarrow> tensor" where
  "tsub a b = tzip (-) a b"

text \<open>\<^verbatim>\<open>c * a\<close> and \<^verbatim>\<open>a * c\<close> for a scalar \<open>c\<close>, \<^verbatim>\<open>a / c\<close>, and \<^verbatim>\<open>- a\<close>.\<close>

definition tscale :: "real \<Rightarrow> tensor \<Rightarrow> tensor" where
  "tscale c a = tmap (\<lambda>x. c * x) a"

definition tdiv :: "tensor \<Rightarrow> real \<Rightarrow> tensor" where
  "tdiv a c = tmap (\<lambda>x. x / c) a"

definition tneg :: "tensor \<Rightarrow> tensor" where
  "tneg a = tmap uminus a"

text \<open>The entries in row-major order (\<^verbatim>\<open>view(-1)\<close>).\<close>

fun flat :: "tensor \<Rightarrow> real list" where
  "flat (Vec xs) = xs"
| "flat (Mat rs) = concat rs"

text \<open>
  \<^verbatim>\<open>torch.dot\<close>: the sum of the products of the entries, both operands read in
  row-major order.
\<close>

definition tdot :: "tensor \<Rightarrow> tensor \<Rightarrow> real" where
  "tdot a b = sum_list (map2 (*) (flat a) (flat b))"

text \<open>\<^verbatim>\<open>len(a)\<close>: the size of the first dimension.\<close>

fun tlen :: "tensor \<Rightarrow> nat" where
  "tlen (Vec xs) = length xs"
| "tlen (Mat rs) = length rs"

text \<open>
  \<^verbatim>\<open>a.squeeze()\<close> drops every dimension of size 1: a one-row matrix becomes its
  row, a one-column matrix becomes its column, any other tensor is unchanged.
\<close>

fun squeeze :: "tensor \<Rightarrow> tensor" where
  "squeeze (Vec xs) = Vec xs"
| "squeeze (Mat rs) =
     (if length rs = 1 then Vec (hd rs)
      else if rs \<noteq> [] \<and> (\<forall>r \<in> set rs. length r = 1) then Vec (concat rs)
      else Mat rs)"

text \<open>
  \<^verbatim>\<open>a -= b\<close>: the in-place subtraction keeps the shape of \<open>a\<close>; on a rank-1
  \<open>a\<close> it runs over the entries of \<open>b\<close> in row-major order.
\<close>

fun tsub_inplace :: "tensor \<Rightarrow> tensor \<Rightarrow> tensor" where
  "tsub_inplace (Vec xs) b = Vec (map2 (-) xs (flat b))"
| "tsub_inplace (Mat rs) b = tsub (Mat rs) b"

section \<open>Errors and warnings\<close>

text \<open>
  Every exception of the Python source is a value: a failed \<^verbatim>\<open>assert\<close>, an
  operation on \<^verbatim>\<open>None\<close>, a float division by zero, an index out of range.
  A function that can raise returns \<open>error + 'a\<close>. The state an exception leaves
  behind is not modelled. \<^verbatim>\<open>warnings.warn\<close> does not interrupt anything: the
  warnings issued are returned beside the result.

  \<open>NotANumber\<close> is no exception. A torch or numpy division by zero raises nothing
  and goes on with inf or NaN; the real numbers have no such values, so where the
  transport divides by a zero norm the model stops with \<open>NotANumber\<close>: what the
  code computes from there on is outside the model.
\<close>

datatype error =
    AssertionError
  | TypeError
  | AttributeError
  | ZeroDivisionError
  | IndexError
  | RuntimeError
  | NotANumber

datatype warning =
    NothingToFlow
  | NormOfModifiedShoot
  | LargeRenormalization
  | GeodesicNotUpdated

section \<open>Kernel\<close>

text \<open>
  The kernel classes are not part of the sources at hand. The engine only calls
  \<^verbatim>\<open>convolve(x, y, p)\<close>, \<^verbatim>\<open>convolve_gradient(p, x)\<close>, \<^verbatim>\<open>get_kernel_matrix(x)\<close>
  and reads \<^verbatim>\<open>kernel_width\<close>, so a kernel is a record of these, and the
  functions of the engine are stated for every kernel.
\<close>

record kernel =
  convolve :: "tensor \<Rightarrow> tensor \<Rightarrow> tensor \<Rightarrow> tensor"
  convolve_gradient :: "tensor \<Rightarrow> tensor \<Rightarrow> tensor"
  get_kernel_matrix :: "tensor \<Rightarrow> tensor"
  kernel_width :: real

text \<open>The points (or weights) of a tensor, one per row.\<close>

fun rows :: "tensor \<Rightarrow> real list list" where
  "rows (Mat rs) = rs"
| "rows (Vec xs) = [xs]"

definition sqdist :: "real list \<Rightarrow> real list \<Rightarrow> real" where
  "sqdist x y = sum_list (map2 (\<lambda>a b. (a - b)\<^sup>2) x y)"

definition vsum :: "nat \<Rightarrow> real list list \<Rightarrow> real list" where
  "vsum d vs = foldr (map2 (+)) vs (replicate d 0)"

definition dim_of :: "tensor \<Rightarrow> nat" where
  "dim_of p = (case rows p of [] \<Rightarrow> 0 | r # _ \<Rightarrow> length r)"

text \<open>
  Modelled from the spec: the Gaussian kernel, of which the sources hold only the
  calls. \<open>K(x,y) = exp(-|x-y|^2 / width^2)\<close>; \<open>convolve\<close> samples at every query
  point \<open>x\<^sub>i\<close> the field \<open>\<Sum>\<^sub>j K(x\<^sub>i,y\<^sub>j) p\<^sub>j\<close>; \<open>convolve_gradient\<close> is the gradient
  with respect to the points of the quadratic form \<open>\<Sum>\<^sub>i\<^sub>j p\<^sub>i K(x\<^sub>i,x\<^sub>j) p\<^sub>j\<close>;
  \<open>get_kernel_matrix\<close> is the Gram matrix \<open>K(x\<^sub>i,x\<^sub>j)\<close>.
\<close>

definition gauss :: "real \<Rightarrow> real list \<Rightarrow> real list \<Rightarrow> real" where
  "gauss w x y = exp (- sqdist x y / w\<^sup>2)"

text \<open>Modelled from the spec: \<^verbatim>\<open>convolve\<close> of the Gaussian kernel, absent from the sources.\<close>

definition gaussian_convolve :: "real \<Rightarrow> tensor \<Rightarrow> tensor \<Rightarrow> tensor \<Rightarrow> tensor" where
  "gaussian_convolve w x y p =
     Mat (map (\<lambda>xi. vsum (dim_of p)
                 (map2 (\<lambda>yj pj. map (\<lambda>c. gauss w xi yj * c) pj) (rows y) (rows p)))
              (rows x))"

text \<open>
  Modelled from the spec: \<^verbatim>\<open>convolve_gradient\<close> of the Gaussian kernel, absent from
  the sources. The derivative of \<open>\<Sum>\<^sub>i\<^sub>j p\<^sub>i K(x\<^sub>i,x\<^sub>j) p\<^sub>j\<close> in \<open>x\<^sub>i\<close> is
  \<open>\<Sum>\<^sub>j (-4 / width\<^sup>2) K(x\<^sub>i,x\<^sub>j) (p\<^sub>i . p\<^sub>j) (x\<^sub>i - x\<^sub>j)\<close>.
\<close>

definition gaussian_convolve_gradient :: "real \<Rightarrow> tensor \<Rightarrow> tensor \<Rightarrow> tensor" where
  "gaussian_convolve_gradient w p x =
     Mat (map2 (\<lambda>xi pi. vsum (length xi)
                 (map2 (\<lambda>xj pj. map2 (\<lambda>a b.
                      (- 4 / w\<^sup>2) * gauss w xi xj * sum_list (map2 (*) pi pj) * (a - b)) xi xj)
                    (rows x) (rows p)))
              (rows x) (rows p))"

text \<open>
  Modelled from the spec: \<^verbatim>\<open>get_kernel_matrix\<close> of the Gaussian kernel, absent from
  the sources.
\<close>

definition gaussian_kernel_matrix :: "real \<Rightarrow> tensor \<Rightarrow> tensor" where
  "gaussian_kernel_matrix w x = Mat (map (\<lambda>xi. map (\<lambda>xj. gauss w xi xj) (rows x)) (rows x))"

text \<open>
  Modelled from the spec: the Gaussian kernel of a given width, as the kernel
  factory, absent from the sources, hands it out.
\<close>

definition gaussian_kernel :: "real \<Rightarrow> kernel" where
  "gaussian_kernel w =
     \<lparr>convolve = gaussian_convolve w,
      convolve_gradient = gaussian_convolve_gradient w,
      get_kernel_matrix = gaussian_kernel_matrix w,
      kernel_width = w\<rparr>"

section \<open>Exponential\<close>

text \<open>
  The attributes of \<^verbatim>\<open>Exponential\<close>. An attribute that \<^verbatim>\<open>__init__\<close> sets to
  \<^verbatim>\<open>None\<close> is an \<open>option\<close>. \<^verbatim>\<open>number_of_time_points\<close> has no setter: the callers
  assign the attribute.
\<close>

record exponential =
  kernel :: "kernel option"
  number_of_time_points :: "int option"
  initial_control_points :: "tensor option"
  control_points_t :: "tensor list option"
  initial_momenta :: "tensor option"
  momenta_t :: "tensor list option"
  initial_template_data :: "tensor option"
  template_data_t :: "tensor list option"
  shoot_is_modified :: bool
  flow_is_modified :: bool
  use_rk2 :: "bool option"
  norm_squared :: "real option"
  cholesky_kernel_matrices :: "tensor list"

definition Exponential_init :: exponential where
  "Exponential_init =
     \<lparr>kernel = None,
      number_of_time_points = None,
      initial_control_points = None,
      control_points_t = None,
      initial_momenta = None,
      momenta_t = None,
      initial_template_data = None,
      template_data_t = None,
      shoot_is_modified = True,
      flow_is_modified = True,
      use_rk2 = None,
      norm_squared = None,
      cholesky_kernel_matrices = []\<rparr>"

subsection \<open>Encapsulation methods\<close>

definition set_use_rk2 :: "bool \<Rightarrow> exponential \<Rightarrow> exponential" where
  "set_use_rk2 b e = e\<lparr>shoot_is_modified := True, use_rk2 := Some b\<rparr>"

definition set_kernel :: "kernel \<Rightarrow> exponential \<Rightarrow> exponential" where
  "set_kernel k e = e\<lparr>kernel := Some k\<rparr>"

text \<open>
  The setters store what they are given, \<^verbatim>\<open>None\<close> included (\<^verbatim>\<open>Geodesic.update\<close>
  passes its own attributes on unchecked), so their argument is an \<open>option\<close>.
\<close>

definition set_initial_template_data :: "tensor option \<Rightarrow> exponential \<Rightarrow> exponential" where
  "set_initial_template_data td e = e\<lparr>initial_template_data := td, flow_is_modified := True\<rparr>"

definition set_initial_control_points :: "tensor option \<Rightarrow> exponential \<Rightarrow> exponential" where
  "set_initial_control_points cps e = e\<lparr>shoot_is_modified := True, initial_control_points := cps\<rparr>"

definition set_initial_momenta :: "tensor option \<Rightarrow> exponential \<Rightarrow> exponential" where
  "set_initial_momenta mom e = e\<lparr>shoot_is_modified := True, initial_momenta := mom\<rparr>"

text \<open>Python's \<^verbatim>\<open>xs[i]\<close>: a negative index counts from the end.\<close>

definition py_index :: "'a list \<Rightarrow> int \<Rightarrow> error + 'a" where
  "py_index xs i =
     (let n = int (length xs); j = (if i < 0 then n + i else i)
      in if 0 \<le> j \<and> j < n then Inr (xs ! nat j) else Inl IndexError)"

definition get_template_data :: "exponential \<Rightarrow> int option \<Rightarrow> error + tensor" where
  "get_template_data e time_index =
     (if flow_is_modified e then Inl AssertionError
      else case template_data_t e of
        None \<Rightarrow> Inl TypeError
      | Some tds \<Rightarrow>
          (case time_index of
             None \<Rightarrow> py_index tds (- 1)
           | Some i \<Rightarrow> py_index tds i))"

text \<open>
  \<^verbatim>\<open>get_norm_squared\<close> warns when the shoot was modified and returns the attribute
  in every case.
\<close>

definition get_norm_squared :: "exponential \<Rightarrow> warning list \<times> real option" where
  "get_norm_squared e =
     ((if shoot_is_modified e then [NormOfModifiedShoot] else []), norm_squared e)"

subsection \<open>Integration steps\<close>

definition euler_step :: "kernel \<Rightarrow> tensor \<Rightarrow> tensor \<Rightarrow> real \<Rightarrow> tensor \<times> tensor" where
  "euler_step K cp mom h =
     (tadd cp (tscale h (convolve K cp cp mom)),
      tsub mom (tscale h (convolve_gradient K mom cp)))"

text \<open>
  \<^verbatim>\<open>_rk2_step\<close>. With \<^verbatim>\<open>return_mom=True\<close> it returns the pair of the new
  control points and momenta (\<open>rk2_step\<close>), with \<^verbatim>\<open>return_mom=False\<close> the new
  control points alone (\<open>rk2_step_cp\<close>).
\<close>

definition rk2_mid_cp :: "kernel \<Rightarrow> tensor \<Rightarrow> tensor \<Rightarrow> real \<Rightarrow> tensor" where
  "rk2_mid_cp K cp mom h = tadd cp (tscale (h / 2) (convolve K cp cp mom))"

definition rk2_mid_mom :: "kernel \<Rightarrow> tensor \<Rightarrow> tensor \<Rightarrow> real \<Rightarrow> tensor" where
  "rk2_mid_mom K cp mom h = tsub mom (tscale (h / 2) (convolve_gradient K mom cp))"

definition rk2_step_cp :: "kernel \<Rightarrow> tensor \<Rightarrow> tensor \<Rightarrow> real \<Rightarrow> tensor" where
  "rk2_step_cp K cp mom h =
     (let mid_cp = rk2_mid_cp K cp mom h; mid_mom = rk2_mid_mom K cp mom h
      in tadd cp (tscale h (convolve K mid_cp mid_cp mid_mom)))"

definition rk2_step :: "kernel \<Rightarrow> tensor \<Rightarrow> tensor \<Rightarrow> real \<Rightarrow> tensor \<times> tensor" where
  "rk2_step K cp mom h =
     (let mid_cp = rk2_mid_cp K cp mom h; mid_mom = rk2_mid_mom K cp mom h
      in (tadd cp (tscale h (convolve K mid_cp mid_cp mid_mom)),
          tsub mom (tscale h (convolve_gradient K mid_mom mid_cp))))"

subsection \<open>Shoot\<close>

text \<open>
  One pass of the loop of \<^verbatim>\<open>_shoot\<close>: step \<open>i\<close> reads entry \<open>i\<close> of both
  trajectories and appends the new pair.
\<close>

definition shoot_body :: "kernel \<Rightarrow> bool \<Rightarrow> real \<Rightarrow> nat \<Rightarrow> tensor list \<times> tensor list
    \<Rightarrow> tensor list \<times> tensor list" where
  "shoot_body K rk2 dt i st =
     (let cps = fst st; moms = snd st;
          new = (if rk2 then rk2_step K (cps ! i) (moms ! i) dt
                 else euler_step K (cps ! i) (moms ! i) dt)
      in (cps @ [fst new], moms @ [snd new]))"

definition shoot_loop :: "kernel \<Rightarrow> bool \<Rightarrow> real \<Rightarrow> nat \<Rightarrow> tensor \<Rightarrow> tensor
    \<Rightarrow> tensor list \<times> tensor list" where
  "shoot_loop K rk2 dt n cp0 mom0 = fold (shoot_body K rk2 dt) [0..<n] ([cp0], [mom0])"

text \<open>Python truthiness of \<^verbatim>\<open>use_rk2\<close>: \<^verbatim>\<open>None\<close> and \<^verbatim>\<open>False\<close> select Euler.\<close>

definition rk2_policy :: "exponential \<Rightarrow> bool" where
  "rk2_policy e = (use_rk2 e = Some True)"

definition shoot :: "exponential \<Rightarrow> error + exponential" where
  "shoot e =
     (case initial_control_points e of
        None \<Rightarrow> Inl TypeError
      | Some cp0 \<Rightarrow>
     if \<not> 0 < tlen cp0 then Inl AssertionError else
     (case initial_momenta e of
        None \<Rightarrow> Inl TypeError
      | Some mom0 \<Rightarrow>
     if \<not> 0 < tlen mom0 then Inl AssertionError else
     (case number_of_time_points e of
        None \<Rightarrow> Inl TypeError
      | Some T \<Rightarrow>
     if T - 1 = 0 then Inl ZeroDivisionError else
     (case kernel e of
        None \<Rightarrow> Inl AttributeError
      | Some K \<Rightarrow>
          (let dt = 1 / real_of_int (T - 1);
               traj = shoot_loop K (rk2_policy e) dt (nat (T - 1)) cp0 mom0
           in Inr (e\<lparr>control_points_t := Some (fst traj),
                     momenta_t := Some (snd traj),
                     norm_squared := Some (tdot mom0 (convolve K cp0 cp0 mom0))\<rparr>))))))"

subsection \<open>Flow\<close>

fun flow_loop :: "kernel \<Rightarrow> bool \<Rightarrow> real \<Rightarrow> tensor list \<Rightarrow> tensor list \<Rightarrow> nat list
    \<Rightarrow> tensor list \<Rightarrow> error + tensor list" where
  "flow_loop K rk2 dt cps moms [] tds = Inr tds"
| "flow_loop K rk2 dt cps moms (i # js) tds =
     (if length tds \<le> i \<or> length cps \<le> i \<or> length moms \<le> i then Inl IndexError
      else
        (let d_pos = convolve K (tds ! i) (cps ! i) (moms ! i);
             tds1 = tds @ [tadd (tds ! i) (tscale dt d_pos)]
         in if rk2
            then (if length cps \<le> i + 1 \<or> length moms \<le> i + 1 then Inl IndexError
                  else flow_loop K rk2 dt cps moms js
                         (tds1[length tds1 - 1 :=
                            tadd (tds ! i)
                              (tscale (dt / 2)
                                 (tadd (convolve K (last tds1) (cps ! (i + 1)) (moms ! (i + 1)))
                                       d_pos))]))
            else flow_loop K rk2 dt cps moms js tds1))"

definition flow :: "exponential \<Rightarrow> error + exponential" where
  "flow e =
     (if shoot_is_modified e then Inl AssertionError else
      (case control_points_t e of
         None \<Rightarrow> Inl TypeError
       | Some cps \<Rightarrow>
      if \<not> 0 < length cps then Inl AssertionError else
      (case momenta_t e of
         None \<Rightarrow> Inl TypeError
       | Some moms \<Rightarrow>
      if \<not> 0 < length moms then Inl AssertionError else
      (case number_of_time_points e of
         None \<Rightarrow> Inl TypeError
       | Some T \<Rightarrow>
      if T - 1 = 0 then Inl ZeroDivisionError else
      (case kernel e of
         None \<Rightarrow> Inl AttributeError
       | Some K \<Rightarrow>
      (case initial_template_data e of
         None \<Rightarrow> Inl TypeError
       | Some td0 \<Rightarrow>
           (case flow_loop K (rk2_policy e) (1 / real_of_int (T - 1)) cps moms
                   [0..<nat (T - 1)] [td0] of
              Inl err \<Rightarrow> Inl err
            | Inr tds \<Rightarrow> Inr (e\<lparr>template_data_t := Some tds\<rparr>))))))))"

subsection \<open>Update\<close>

text \<open>
  The block of \<^verbatim>\<open>update\<close> shared by its two branches: flow when there is template
  data, warn otherwise.
\<close>

definition flow_or_warn :: "exponential \<Rightarrow> error + (exponential \<times> warning list)" where
  "flow_or_warn e =
     (if initial_template_data e \<noteq> None
      then (case flow e of
              Inl err \<Rightarrow> Inl err
            | Inr e1 \<Rightarrow> Inr (e1\<lparr>flow_is_modified := False\<rparr>, []))
      else Inr (e, [NothingToFlow]))"

definition update :: "exponential \<Rightarrow> error + (exponential \<times> warning list)" where
  "update e =
     (case number_of_time_points e of
        None \<Rightarrow> Inl TypeError
      | Some T \<Rightarrow>
     if \<not> 0 < T then Inl AssertionError else
     (case (if shoot_is_modified e
            then (case shoot (e\<lparr>cholesky_kernel_matrices := []\<rparr>) of
                    Inl err \<Rightarrow> Inl err
                  | Inr e1 \<Rightarrow> flow_or_warn (e1\<lparr>shoot_is_modified := False\<rparr>))
            else Inr (e, [])) of
        Inl err \<Rightarrow> Inl err
      | Inr (e2, ws) \<Rightarrow>
          if flow_is_modified e2
          then (case flow_or_warn e2 of
                  Inl err \<Rightarrow> Inl err
                | Inr (e3, ws') \<Rightarrow> Inr (e3, ws @ ws'))
          else Inr (e2, ws)))"

subsection \<open>Parallel transport\<close>

text \<open>
  The transport divides by \<^verbatim>\<open>norm_squared\<close> throughout: when it is zero the floats
  leave the real numbers at the first line and the model stops with
  \<open>NotANumber\<close>.

  \<^verbatim>\<open>torch.potrf\<close> (the Cholesky factor of a matrix) and \<^verbatim>\<open>torch.potrs\<close> (the
  solution of a linear system from such a factor) belong to the tensor library, and
  \<^verbatim>\<open>create_kernel('exact', width)\<close> to the kernel package: the transport takes them
  as parameters.
\<close>

record linalg =
  potrf :: "tensor \<Rightarrow> tensor"
  potrs :: "tensor \<Rightarrow> tensor \<Rightarrow> tensor"

text \<open>\<^verbatim>\<open>a.size()\<close>.\<close>

fun tsize :: "tensor \<Rightarrow> nat list" where
  "tsize (Vec xs) = [length xs]"
| "tsize (Mat rs) = [length rs, (case rs of [] \<Rightarrow> 0 | r # _ \<Rightarrow> length r)]"

text \<open>
  The cotangent version of the velocity (the \<^verbatim>\<open>if\<close> on the length of the cache in
  the loop of \<^verbatim>\<open>parallel_transport\<close>): with a full cache the stored factor of step
  \<open>i\<close> is used, otherwise the factor is computed from the control points of step
  \<open>i + 1\<close>, appended to the cache, and the solution is squeezed.
\<close>

definition solve_momenta :: "linalg \<Rightarrow> kernel \<Rightarrow> int \<Rightarrow> tensor list \<Rightarrow> tensor \<Rightarrow> nat \<Rightarrow> tensor
    \<Rightarrow> error + (tensor \<times> tensor list)" where
  "solve_momenta LA Kx T cache cp_next i approx_velocity =
     (if int (length cache) = T - 1
      then (if length cache \<le> i then Inl IndexError
            else Inr (potrs LA approx_velocity (cache ! i), cache))
      else (let kernel_matrix = get_kernel_matrix Kx cp_next;
                cholesky_kernel_matrix = potrf LA kernel_matrix
            in Inr (squeeze (potrs LA approx_velocity cholesky_kernel_matrix),
                    cache @ [cholesky_kernel_matrix])))"

text \<open>
  The end of the loop body: the component along the geodesic velocity is removed,
  the norm of the result is compared with the initial one (a warning beyond 2
  percent; the warning's text, which prints the quotient, is not modelled), and
  the result is renormalized. The arithmetic is that of the code as long as the
  norm of the result, by which the last line divides, is not zero; the loop body
  below stops before it otherwise.
\<close>

definition renormalize :: "kernel \<Rightarrow> real \<Rightarrow> real \<Rightarrow> tensor \<Rightarrow> tensor \<Rightarrow> tensor
    \<Rightarrow> tensor \<times> warning list" where
  "renormalize Kx ns initial_norm cp_next mom_next approx_momenta0 =
     (let scalar_prod_with_velocity =
            tdot approx_momenta0 (convolve Kx cp_next cp_next mom_next) / ns;
          approx_momenta = tsub_inplace approx_momenta0 (tscale scalar_prod_with_velocity mom_next);
          norm_approx_momenta = tdot approx_momenta (convolve Kx cp_next cp_next approx_momenta);
          ws = (if \<bar>norm_approx_momenta / initial_norm - 1\<bar> > 0.02
                then [LargeRenormalization] else [])
      in (tdiv (tscale initial_norm approx_momenta) norm_approx_momenta, ws))"

text \<open>The norm by which \<open>renormalize\<close> divides.\<close>

definition norm_approx :: "kernel \<Rightarrow> real \<Rightarrow> tensor \<Rightarrow> tensor \<Rightarrow> tensor \<Rightarrow> real" where
  "norm_approx Kx ns cp_next mom_next approx_momenta0 =
     (let scalar_prod_with_velocity =
            tdot approx_momenta0 (convolve Kx cp_next cp_next mom_next) / ns;
          approx_momenta = tsub_inplace approx_momenta0 (tscale scalar_prod_with_velocity mom_next)
      in tdot approx_momenta (convolve Kx cp_next cp_next approx_momenta))"

text \<open>
  The loop body. Its state is the cache, the transported momenta so far and the
  warnings so far. When the norm by which the renormalization divides is zero,
  the code goes on with inf or NaN entries: the model stops with \<open>NotANumber\<close>.
  (With a zero initial norm and a non-zero norm of the step the code warns and
  returns zeros, and so does the model.)
\<close>

definition transport_body :: "linalg \<Rightarrow> kernel \<Rightarrow> kernel \<Rightarrow> int \<Rightarrow> tensor list \<Rightarrow> tensor list
    \<Rightarrow> real \<Rightarrow> real \<Rightarrow> real \<Rightarrow> real \<Rightarrow> nat \<Rightarrow> tensor list \<times> tensor list \<times> warning list
    \<Rightarrow> error + (tensor list \<times> tensor list \<times> warning list)" where
  "transport_body LA Ks Kx T cps moms ns initial_norm h epsilon i st =
     (case st of (cache, pts, ws) \<Rightarrow>
        if length cps \<le> i + 1 \<or> length moms \<le> i + 1 then Inl IndexError
        else
          (let cp_eps_pos = rk2_step_cp Ks (cps ! i) (tadd (moms ! i) (tscale epsilon (last pts))) h;
               cp_eps_neg = rk2_step_cp Ks (cps ! i) (tsub (moms ! i) (tscale epsilon (last pts))) h;
               approx_velocity = tdiv (tsub cp_eps_pos cp_eps_neg) (2 * epsilon * h)
           in case solve_momenta LA Kx T cache (cps ! (i + 1)) i approx_velocity of
                Inl err \<Rightarrow> Inl err
              | Inr (approx_momenta, cache') \<Rightarrow>
                  if norm_approx Kx ns (cps ! (i + 1)) (moms ! (i + 1)) approx_momenta = 0
                  then Inl NotANumber
                  else
                    (let r = renormalize Kx ns initial_norm (cps ! (i + 1)) (moms ! (i + 1))
                               approx_momenta
                     in Inr (cache', pts @ [fst r], ws @ snd r))))"

fun transport_loop :: "(nat \<Rightarrow> 's \<Rightarrow> error + 's) \<Rightarrow> nat list \<Rightarrow> 's \<Rightarrow> error + 's" where
  "transport_loop body [] st = Inr st"
| "transport_loop body (i # js) st =
     (case body i st of Inl err \<Rightarrow> Inl err | Inr st' \<Rightarrow> transport_loop body js st')"

definition parallel_transport :: "linalg \<Rightarrow> (real \<Rightarrow> kernel) \<Rightarrow> exponential \<Rightarrow> tensor \<Rightarrow> bool
    \<Rightarrow> error + (exponential \<times> tensor list \<times> warning list)" where
  "parallel_transport LA create_exact e momenta_to_transport with_tangential_component =
     (if shoot_is_modified e then Inl AssertionError else
      (case initial_momenta e of
         None \<Rightarrow> Inl AttributeError
       | Some mom0 \<Rightarrow>
      if tsize momenta_to_transport \<noteq> tsize mom0 then Inl AssertionError else
      (case kernel e of
         None \<Rightarrow> Inl AttributeError
       | Some Ks \<Rightarrow>
      (case number_of_time_points e of
         None \<Rightarrow> Inl TypeError
       | Some T \<Rightarrow>
      if T - 1 = 0 then Inl ZeroDivisionError else
      (case initial_control_points e of
         None \<Rightarrow> Inl TypeError
       | Some cp0 \<Rightarrow>
      (case norm_squared e of
         None \<Rightarrow> Inl TypeError
       | Some ns \<Rightarrow>
      (case control_points_t e of
         None \<Rightarrow> Inl TypeError
       | Some cps \<Rightarrow>
      (case momenta_t e of
         None \<Rightarrow> Inl TypeError
       | Some moms \<Rightarrow>
      if ns = 0 then Inl NotANumber else
          (let Kx = create_exact (kernel_width Ks);
               h = 1 / (real_of_int T - 1);
               epsilon = h;
               sp = tdot momenta_to_transport (convolve Kx cp0 cp0 mom0) / ns;
               momenta_to_transport_orthogonal = tsub momenta_to_transport (tscale sp mom0);
               sp_for_assert = tdot momenta_to_transport_orthogonal (convolve Kx cp0 cp0 mom0) / ns
           in if \<not> sp_for_assert < 1 / 100000 then Inl AssertionError
              else
                (let initial_norm = tdot momenta_to_transport_orthogonal
                       (convolve Kx cp0 cp0 momenta_to_transport_orthogonal)
                 in case transport_loop
                           (transport_body LA Ks Kx T cps moms ns initial_norm h epsilon)
                           [0..<nat (T - 1)]
                           (cholesky_kernel_matrices e, [momenta_to_transport_orthogonal], []) of
                      Inl err \<Rightarrow> Inl err
                    | Inr (cache, pts, ws) \<Rightarrow>
                        if length pts \<noteq> length moms then Inl AssertionError
                        else Inr (e\<lparr>cholesky_kernel_matrices := cache\<rparr>,
                                  (if with_tangential_component
                                   then map (\<lambda>i. tadd (pts ! i) (tscale sp (moms ! i))) [0..<nat T]
                                   else pts),
                                  ws)))))))))))"

section \<open>Geodesic\<close>

record geodesic =
  concentration_of_time_points :: "real option"
  t0 :: "real option"
  tmax :: "real option"
  tmin :: "real option"
  control_points_t0 :: "tensor option"
  momenta_t0 :: "tensor option"
  template_data_t0 :: "tensor option"
  backward_exponential :: exponential
  forward_exponential :: exponential
  geo_shoot_is_modified :: bool
  geo_flow_is_modified :: bool

definition Geodesic_init :: geodesic where
  "Geodesic_init =
     \<lparr>concentration_of_time_points = None,
      t0 = None,
      tmax = None,
      tmin = None,
      control_points_t0 = None,
      momenta_t0 = None,
      template_data_t0 = None,
      backward_exponential = Exponential_init,
      forward_exponential = Exponential_init,
      geo_shoot_is_modified = True,
      geo_flow_is_modified = True\<rparr>"

subsection \<open>Encapsulation methods\<close>

definition geodesic_set_use_rk2 :: "bool \<Rightarrow> geodesic \<Rightarrow> geodesic" where
  "geodesic_set_use_rk2 b g =
     g\<lparr>backward_exponential := set_use_rk2 b (backward_exponential g),
       forward_exponential := set_use_rk2 b (forward_exponential g)\<rparr>"

definition geodesic_set_kernel :: "kernel \<Rightarrow> geodesic \<Rightarrow> geodesic" where
  "geodesic_set_kernel k g =
     g\<lparr>backward_exponential := (backward_exponential g)\<lparr>kernel := Some k\<rparr>,
       forward_exponential := (forward_exponential g)\<lparr>kernel := Some k\<rparr>\<rparr>"

definition set_t0 :: "real \<Rightarrow> geodesic \<Rightarrow> geodesic" where
  "set_t0 t g = g\<lparr>t0 := Some t, geo_shoot_is_modified := True\<rparr>"

definition set_tmin :: "real \<Rightarrow> geodesic \<Rightarrow> geodesic" where
  "set_tmin t g = g\<lparr>tmin := Some t, geo_shoot_is_modified := True\<rparr>"

definition set_tmax :: "real \<Rightarrow> geodesic \<Rightarrow> geodesic" where
  "set_tmax t g = g\<lparr>tmax := Some t, geo_shoot_is_modified := True\<rparr>"

definition set_template_data_t0 :: "tensor option \<Rightarrow> geodesic \<Rightarrow> geodesic" where
  "set_template_data_t0 td g = g\<lparr>template_data_t0 := td, geo_flow_is_modified := True\<rparr>"

definition set_control_points_t0 :: "tensor option \<Rightarrow> geodesic \<Rightarrow> geodesic" where
  "set_control_points_t0 cp g = g\<lparr>control_points_t0 := cp, geo_shoot_is_modified := True\<rparr>"

definition set_momenta_t0 :: "tensor option \<Rightarrow> geodesic \<Rightarrow> geodesic" where
  "set_momenta_t0 mom g = g\<lparr>momenta_t0 := mom, geo_shoot_is_modified := True\<rparr>"

subsection \<open>Update\<close>

text \<open>Python's \<^verbatim>\<open>int(x)\<close> on a float: truncation towards zero.\<close>

definition py_int :: "real \<Rightarrow> int" where
  "py_int x = (if 0 \<le> x then \<lfloor>x\<rfloor> else \<lceil>x\<rceil>)"

definition side_number_of_time_points :: "real \<Rightarrow> real \<Rightarrow> int" where
  "side_number_of_time_points delta_t c = max 1 (py_int (delta_t * c + 1.5))"

text \<open>
  One side of \<^verbatim>\<open>Geodesic.update\<close>: the number of time points is assigned; when the
  shoot of the geodesic is modified the scaled momenta (\<open>scaled\<close> applied to
  \<^verbatim>\<open>momenta_t0\<close>, an arithmetic on \<^verbatim>\<open>None\<close> being a \<^verbatim>\<open>TypeError\<close>) and the
  control points are handed over; when its flow is modified, the template data;
  and the exponential is updated when it has more than one time point.
\<close>

definition update_side :: "geodesic \<Rightarrow> exponential \<Rightarrow> int \<Rightarrow> (tensor \<Rightarrow> tensor)
    \<Rightarrow> error + (exponential \<times> warning list)" where
  "update_side g e n scaled =
     (let e1 = e\<lparr>number_of_time_points := Some n\<rparr>
      in case (if geo_shoot_is_modified g
               then (case momenta_t0 g of
                       None \<Rightarrow> Inl TypeError
                     | Some mom \<Rightarrow>
                         Inr (set_initial_control_points (control_points_t0 g)
                                (set_initial_momenta (Some (scaled mom)) e1)))
               else Inr e1) of
           Inl err \<Rightarrow> Inl err
         | Inr e2 \<Rightarrow>
             (let e3 = (if geo_flow_is_modified g
                        then set_initial_template_data (template_data_t0 g) e2
                        else e2)
              in if 1 < n then update e3 else Inr (e3, [])))"

definition geodesic_update :: "geodesic \<Rightarrow> error + (geodesic \<times> warning list)" where
  "geodesic_update g =
     (case t0 g of
        None \<Rightarrow> Inl TypeError
      | Some t \<Rightarrow>
     (case tmin g of
        None \<Rightarrow> Inl TypeError
      | Some lo \<Rightarrow>
     if \<not> lo \<le> t then Inl AssertionError else
     (case tmax g of
        None \<Rightarrow> Inl TypeError
      | Some hi \<Rightarrow>
     if \<not> t \<le> hi then Inl AssertionError else
     (case concentration_of_time_points g of
        None \<Rightarrow> Inl TypeError
      | Some c \<Rightarrow>
     (case update_side g (backward_exponential g)
             (side_number_of_time_points (t - lo) c)
             (\<lambda>mom. tscale (t - lo) (tneg mom)) of
        Inl err \<Rightarrow> Inl err
      | Inr (b, wsb) \<Rightarrow>
     (case update_side g (forward_exponential g)
             (side_number_of_time_points (hi - t) c)
             (\<lambda>mom. tscale (hi - t) mom) of
        Inl err \<Rightarrow> Inl err
      | Inr (f, wsf) \<Rightarrow>
          Inr (g\<lparr>backward_exponential := b, forward_exponential := f,
                 geo_shoot_is_modified := False, geo_flow_is_modified := False\<rparr>,
               wsb @ wsf)))))))"

definition geodesic_get_norm_squared :: "geodesic \<Rightarrow> warning list \<times> real option" where
  "geodesic_get_norm_squared g = get_norm_squared (forward_exponential g)"

text \<open>
  The formula of the specification for the number of time points of a side, with
  Python's \<^verbatim>\<open>round\<close> (to the nearest integer, a tie to the even one).
\<close>

definition py_round :: "real \<Rightarrow> int" where
  "py_round x =
     (if x - real_of_int \<lfloor>x\<rfloor> < 1 / 2 then \<lfloor>x\<rfloor>
      else if 1 / 2 < x - real_of_int \<lfloor>x\<rfloor> then \<lfloor>x\<rfloor> + 1
      else if even \<lfloor>x\<rfloor> then \<lfloor>x\<rfloor> else \<lfloor>x\<rfloor> + 1)"

definition spec_number_of_time_points :: "real \<Rightarrow> real \<Rightarrow> int" where
  "spec_number_of_time_points delta_t c = max 1 (py_round (c * delta_t + 0.5))"

subsection \<open>Reading the trajectory\<close>

text \<open>\<^verbatim>\<open>np.linspace(a, b, num=n).tolist()\<close> for \<open>n > 1\<close>.\<close>

definition linspace :: "real \<Rightarrow> real \<Rightarrow> nat \<Rightarrow> real list" where
  "linspace a b n = map (\<lambda>i. a + real i * ((b - a) / real (n - 1))) [0..<n]"

text \<open>
  The times of one side: none when the side has one time point, else the
  \<^verbatim>\<open>linspace\<close> from the reference time to the bound (on \<^verbatim>\<open>None\<close> a
  \<^verbatim>\<open>TypeError\<close>).
\<close>

definition side_times :: "real option \<Rightarrow> real option \<Rightarrow> exponential \<Rightarrow> error + real list" where
  "side_times a b e =
     (case number_of_time_points e of
        None \<Rightarrow> Inl TypeError
      | Some n \<Rightarrow>
          if 1 < n
          then (case a of
                  None \<Rightarrow> Inl TypeError
                | Some a' \<Rightarrow>
                    (case b of
                       None \<Rightarrow> Inl TypeError
                     | Some b' \<Rightarrow> Inr (linspace a' b' (nat n))))
          else Inr [])"

definition get_times :: "geodesic \<Rightarrow> error + real list" where
  "get_times g =
     (case side_times (t0 g) (tmin g) (backward_exponential g) of
        Inl err \<Rightarrow> Inl err
      | Inr times_backward \<Rightarrow>
     (case side_times (t0 g) (tmax g) (forward_exponential g) of
        Inl err \<Rightarrow> Inl err
      | Inr times_forward \<Rightarrow> Inr (rev times_backward @ tl times_forward)))"

definition side_template :: "exponential \<Rightarrow> error + tensor list" where
  "side_template e =
     (case number_of_time_points e of
        None \<Rightarrow> Inl TypeError
      | Some n \<Rightarrow>
          if 1 < n
          then (case template_data_t e of None \<Rightarrow> Inl TypeError | Some tds \<Rightarrow> Inr tds)
          else Inr [])"

definition get_template_trajectory :: "geodesic \<Rightarrow> error + (tensor list \<times> warning list)" where
  "get_template_trajectory g =
     (case side_template (backward_exponential g) of
        Inl err \<Rightarrow> Inl err
      | Inr backward_template_t \<Rightarrow>
     (case side_template (forward_exponential g) of
        Inl err \<Rightarrow> Inl err
      | Inr forward_template_t \<Rightarrow>
          Inr (rev backward_template_t @ tl forward_template_t,
               (if geo_shoot_is_modified g \<or> geo_flow_is_modified g
                then [GeodesicNotUpdated] else []))))"

text \<open>
  The index of the least entry, the first one among equals
  (\<^verbatim>\<open>torch.min(..., 0)\<close>).
\<close>

fun argmin_from :: "nat \<Rightarrow> real \<Rightarrow> nat \<Rightarrow> real list \<Rightarrow> nat" where
  "argmin_from best v i [] = best"
| "argmin_from best v i (x # xs) =
     (if x < v then argmin_from i x (Suc i) xs else argmin_from best v (Suc i) xs)"

definition argmin :: "real list \<Rightarrow> error + nat" where
  "argmin xs = (case xs of [] \<Rightarrow> Inl RuntimeError | x # ys \<Rightarrow> Inr (argmin_from 0 x 1 ys))"

text \<open>\<^verbatim>\<open>Geodesic.get_template_data(time)\<close>, with the default \<^verbatim>\<open>with_index=False\<close>.\<close>

definition geodesic_get_template_data :: "geodesic \<Rightarrow> real \<Rightarrow> error + (tensor \<times> warning list)" where
  "geodesic_get_template_data g time =
     (case tmin g of
        None \<Rightarrow> Inl TypeError
      | Some lo \<Rightarrow>
     if \<not> lo \<le> time then Inl AssertionError else
     (case tmax g of
        None \<Rightarrow> Inl TypeError
      | Some hi \<Rightarrow>
     if \<not> time \<le> hi then Inl AssertionError else
       (let ws = (if geo_shoot_is_modified g \<or> geo_flow_is_modified g
                  then [GeodesicNotUpdated] else [])
        in case get_times g of
             Inl err \<Rightarrow> Inl err
           | Inr ts \<Rightarrow>
          (case argmin (map (\<lambda>t. (t - time)\<^sup>2) ts) of
             Inl err \<Rightarrow> Inl err
           | Inr index \<Rightarrow>
          (case get_template_trajectory g of
             Inl err \<Rightarrow> Inl err
           | Inr (traj, ws') \<Rightarrow>
               if traj = [] then Inl RuntimeError
               else if length traj \<le> index then Inl IndexError
               else Inr (squeeze (traj ! index), ws @ ws'))))))"

section \<open>Concrete scenarios\<close>

text \<open>
  One control point at the origin of the line with momentum 1, a template point
  at the same place, the Gaussian kernel of width 1, two time points and the
  Euler policy.
\<close>

definition line_exponential :: exponential where
  "line_exponential =
     set_initial_template_data (Some (Mat [[0]]))
       (set_initial_momenta (Some (Mat [[1]]))
          (set_initial_control_points (Some (Mat [[0]]))
             (set_use_rk2 False
                (set_kernel (gaussian_kernel 1)
                   (Exponential_init\<lparr>number_of_time_points := Some 2\<rparr>)))))"

text \<open>
  One control point at the origin of the plane with momentum (1, 0), no template,
  the Gaussian kernel of width 1, two time points and the midpoint policy.
\<close>

definition plane_exponential :: exponential where
  "plane_exponential =
     set_initial_momenta (Some (Mat [[1, 0]]))
       (set_initial_control_points (Some (Mat [[0, 0]]))
          (set_use_rk2 True
             (set_kernel (gaussian_kernel 1)
                (Exponential_init\<lparr>number_of_time_points := Some 2\<rparr>))))"

text \<open>
  The Cholesky factor of a diagonal matrix is its entrywise square root, and the
  system it stands for is solved row by row. This is all the scenarios with a
  single control point need (their kernel matrix has one entry).
\<close>

definition diagonal_potrs :: "tensor \<Rightarrow> tensor \<Rightarrow> tensor" where
  "diagonal_potrs b u =
     Mat (map (\<lambda>i. map (\<lambda>x. x / (rows u ! i ! i)\<^sup>2) (rows b ! i)) [0..<length (rows b)])"

definition diagonal_linalg :: linalg where
  "diagonal_linalg = \<lparr>potrf = tmap sqrt, potrs = diagonal_potrs\<rparr>"

text \<open>
  A geodesic of the line through the control point and template point of
  \<open>line_exponential\<close>, with the given times and concentration of time points.
\<close>

definition line_geodesic :: "real \<Rightarrow> real \<Rightarrow> real \<Rightarrow> real \<Rightarrow> geodesic" where
  "line_geodesic lo t hi c =
     set_template_data_t0 (Some (Mat [[0]]))
       (set_momenta_t0 (Some (Mat [[1]]))
          (set_control_points_t0 (Some (Mat [[0]]))
             (set_tmax hi (set_tmin lo (set_t0 t
                (geodesic_set_use_rk2 False
                   (geodesic_set_kernel (gaussian_kernel 1)
                      (Geodesic_init\<lparr>concentration_of_time_points := Some c\<rparr>))))))))"

text \<open>
  The state \<^verbatim>\<open>update()\<close> leaves from \<open>plane_exponential\<close>, and the state after a
  first parallel transport on it (one Cholesky factor in the cache).
\<close>

definition plane_updated :: exponential where
  "plane_updated =
     plane_exponential\<lparr>control_points_t := Some [Mat [[0, 0]], Mat [[1, 0]]],
       momenta_t := Some [Mat [[1, 0]], Mat [[1, 0]]],
       norm_squared := Some 1,
       shoot_is_modified := False\<rparr>"

definition plane_transported :: exponential where
  "plane_transported = plane_updated\<lparr>cholesky_kernel_matrices := [Mat [[1]]]\<rparr>"

section \<open>Properties of the integration loops\<close>

lemma shoot_loop_0: "shoot_loop K rk2 dt 0 cp0 mom0 = ([cp0], [mom0])"
  by (simp add: shoot_loop_def)

lemma shoot_loop_Suc:
  "shoot_loop K rk2 dt (Suc n) cp0 mom0 = shoot_body K rk2 dt n (shoot_loop K rk2 dt n cp0 mom0)"
  by (simp add: shoot_loop_def)

lemma shoot_loop_length:
  "length (fst (shoot_loop K rk2 dt n cp0 mom0)) = Suc n \<and>
   length (snd (shoot_loop K rk2 dt n cp0 mom0)) = Suc n"
  by (induction n) (simp_all add: shoot_loop_0 shoot_loop_Suc shoot_body_def Let_def)




text \<open>
  The loop of the flow reads entries \<open>i\<close> and \<open>i + 1\<close> of the shot trajectories:
  on trajectories with more than \<open>n\<close> entries its \<open>n\<close> steps all succeed.
\<close>

lemma flow_loop_ok:
  "length tds = Suc k \<Longrightarrow> k \<le> n \<Longrightarrow> n < length cps \<Longrightarrow> n < length moms \<Longrightarrow>
   \<exists>tds'. flow_loop K rk2 dt cps moms [k..<n] tds = Inr tds' \<and> length tds' = Suc n \<and> tds' ! 0 = tds ! 0"
proof (induction "n - k" arbitrary: k tds)
  case 0
  then show ?case by simp
next
  case (Suc d)
  then have kn: "k < n" by simp
  then have upt: "[k..<n] = k # [Suc k..<n]" by (simp add: upt_conv_Cons)
  let ?d = "convolve K (tds ! k) (cps ! k) (moms ! k)"
  let ?t1 = "tds @ [tadd (tds ! k) (tscale dt ?d)]"
  let ?t2 = "?t1[length ?t1 - 1 := tadd (tds ! k) (tscale (dt / 2)
               (tadd (convolve K (last ?t1) (cps ! (k + 1)) (moms ! (k + 1))) ?d))]"
  have d: "d = n - Suc k" using Suc.hyps by simp
  have l1: "length ?t1 = Suc (Suc k)" "length ?t2 = Suc (Suc k)" using Suc.prems by simp_all
  have h1: "?t1 ! 0 = tds ! 0" "?t2 ! 0 = tds ! 0" using Suc.prems by (simp_all add: nth_append)
  from Suc.hyps(1) [OF d l1(1)] kn Suc.prems
  obtain r1 where r1: "flow_loop K rk2 dt cps moms [Suc k..<n] ?t1 = Inr r1" "length r1 = Suc n" "r1 ! 0 = ?t1 ! 0"
    by auto
  from Suc.hyps(1) [OF d l1(2)] kn Suc.prems
  obtain r2 where r2: "flow_loop K rk2 dt cps moms [Suc k..<n] ?t2 = Inr r2" "length r2 = Suc n" "r2 ! 0 = ?t2 ! 0"
    by auto
  show ?case
  proof (cases rk2)
    case True
    then show ?thesis using r2 h1 kn Suc.prems unfolding upt by (simp add: Let_def)
  next
    case False
    then show ?thesis using r1 h1 kn Suc.prems unfolding upt by (simp add: Let_def)
  qed
qed

section \<open>Properties of update\<close>

lemma rk2_policy_update [simp]:
  "rk2_policy (e\<lparr>cholesky_kernel_matrices := c\<rparr>) = rk2_policy e"
  "rk2_policy (e\<lparr>shoot_is_modified := b\<rparr>) = rk2_policy e"
  "rk2_policy (e\<lparr>flow_is_modified := b\<rparr>) = rk2_policy e"
  "rk2_policy (e\<lparr>template_data_t := t\<rparr>) = rk2_policy e"
  "rk2_policy (e\<lparr>control_points_t := ct\<rparr>) = rk2_policy e"
  "rk2_policy (e\<lparr>momenta_t := mt\<rparr>) = rk2_policy e"
  "rk2_policy (e\<lparr>norm_squared := ns\<rparr>) = rk2_policy e"
  "rk2_policy (e\<lparr>initial_template_data := it\<rparr>) = rk2_policy e"
  by (simp_all add: rk2_policy_def)

lemma flow_succeeds:
  assumes "\<not> shoot_is_modified e" "control_points_t e = Some cps" "momenta_t e = Some moms"
    "number_of_time_points e = Some T" "2 \<le> T" "length cps = nat T" "length moms = nat T"
    "initial_template_data e = Some td" "kernel e = Some K"
  shows "\<exists>tds. flow e = Inr (e\<lparr>template_data_t := Some tds\<rparr>) \<and> length tds = nat T \<and> tds ! 0 = td"
proof -
  have n: "Suc (nat (T - 1)) = nat T" using assms(5) by simp
  have "\<exists>tds'. flow_loop K (rk2_policy e) (1 / real_of_int (T - 1)) cps moms [0..<nat (T - 1)] [td] = Inr tds' \<and>
      length tds' = Suc (nat (T - 1)) \<and> tds' ! 0 = [td] ! 0"
    by (rule flow_loop_ok) (use assms n in simp_all)
  then obtain tds where "flow_loop K (rk2_policy e) (1 / real_of_int (T - 1)) cps moms [0..<nat (T - 1)] [td] = Inr tds"
    "length tds = nat T" "tds ! 0 = td" using n by auto
  then show ?thesis using assms by (intro exI [of _ tds]) (simp add: flow_def)
qed

lemma shoot_succeeds:
  assumes "number_of_time_points e = Some T" "2 \<le> T" "kernel e = Some K"
    "initial_control_points e = Some cp0" "0 < tlen cp0"
    "initial_momenta e = Some mom0" "0 < tlen mom0"
  shows "shoot e = Inr (e\<lparr>control_points_t :=
             Some (fst (shoot_loop K (rk2_policy e) (1 / real_of_int (T - 1)) (nat (T - 1)) cp0 mom0)),
           momenta_t :=
             Some (snd (shoot_loop K (rk2_policy e) (1 / real_of_int (T - 1)) (nat (T - 1)) cp0 mom0)),
           norm_squared := Some (tdot mom0 (convolve K cp0 cp0 mom0))\<rparr>)"
  using assms by (simp add: shoot_def Let_def)

text \<open>
  What \<^verbatim>\<open>update\<close> does on an exponential whose shoot is modified and whose inputs
  are in place: it succeeds, the trajectories are those of the loop of the shoot,
  the cache is empty, and the inputs are as before.
\<close>

lemma update_shoot_stale:
  assumes "shoot_is_modified e" "number_of_time_points e = Some T" "2 \<le> T" "kernel e = Some K"
    "initial_control_points e = Some cp0" "0 < tlen cp0"
    "initial_momenta e = Some mom0" "0 < tlen mom0"
  shows "\<exists>e' ws. update e = Inr (e', ws) \<and>
    control_points_t e' = Some (fst (shoot_loop K (rk2_policy e) (1 / real_of_int (T - 1)) (nat (T - 1)) cp0 mom0)) \<and>
    momenta_t e' = Some (snd (shoot_loop K (rk2_policy e) (1 / real_of_int (T - 1)) (nat (T - 1)) cp0 mom0)) \<and>
    norm_squared e' = Some (tdot mom0 (convolve K cp0 cp0 mom0)) \<and>
    \<not> shoot_is_modified e' \<and> cholesky_kernel_matrices e' = [] \<and>
    (initial_template_data e \<noteq> None \<longrightarrow>
       \<not> flow_is_modified e' \<and> (\<exists>tds. template_data_t e' = Some tds \<and> length tds = nat T)) \<and>
    kernel e' = kernel e \<and> number_of_time_points e' = number_of_time_points e \<and>
    initial_control_points e' = initial_control_points e \<and> initial_momenta e' = initial_momenta e \<and>
    initial_template_data e' = initial_template_data e \<and> use_rk2 e' = use_rk2 e"
proof -
  let ?traj = "shoot_loop K (rk2_policy e) (1 / real_of_int (T - 1)) (nat (T - 1)) cp0 mom0"
  let ?e0 = "e\<lparr>cholesky_kernel_matrices := []\<rparr>"
  let ?e1 = "?e0\<lparr>control_points_t := Some (fst ?traj), momenta_t := Some (snd ?traj),
           norm_squared := Some (tdot mom0 (convolve K cp0 cp0 mom0))\<rparr>"
  let ?e2 = "?e1\<lparr>shoot_is_modified := False\<rparr>"
  have sh: "shoot ?e0 = Inr ?e1"
    using shoot_succeeds [of ?e0 T K cp0 mom0] assms by simp
  have n: "Suc (nat (T - 1)) = nat T" using assms(3) by simp
  have len: "length (fst ?traj) = nat T" "length (snd ?traj) = nat T"
    using shoot_loop_length [of K "rk2_policy e" "1 / real_of_int (T - 1)" "nat (T - 1)" cp0 mom0] n
    by simp_all
  have T0: "0 < T" using assms(3) by simp
  show ?thesis
  proof (cases "initial_template_data e")
    case None
    then show ?thesis
      using assms(1,2) T0 sh by (simp add: update_def flow_or_warn_def)
  next
    case (Some td)
    have "\<exists>tds. flow ?e2 = Inr (?e2\<lparr>template_data_t := Some tds\<rparr>) \<and> length tds = nat T \<and> tds ! 0 = td"
      by (rule flow_succeeds [where cps = "fst ?traj" and moms = "snd ?traj" and K = K])
         (use assms Some len in simp_all)
    then obtain tds where fl: "flow ?e2 = Inr (?e2\<lparr>template_data_t := Some tds\<rparr>)" "length tds = nat T"
      by blast
    show ?thesis
      using assms(1,2) T0 sh fl Some by (simp add: update_def flow_or_warn_def)
  qed
qed

section \<open>Evaluating the scenarios\<close>

lemmas scenario_defs = line_exponential_def plane_exponential_def plane_updated_def
  plane_transported_def
  set_initial_template_data_def set_initial_momenta_def
  set_initial_control_points_def set_use_rk2_def set_kernel_def Exponential_init_def

lemmas gauss_defs = gaussian_kernel_def gaussian_convolve_def gaussian_convolve_gradient_def
  gaussian_kernel_matrix_def gauss_def sqdist_def vsum_def dim_of_def

lemmas tensor_defs = tadd_def tsub_def tscale_def tdiv_def tneg_def tdot_def

lemmas engine_defs = update_def shoot_def flow_def flow_or_warn_def shoot_loop_def shoot_body_def
  euler_step_def rk2_step_def rk2_step_cp_def rk2_mid_cp_def rk2_mid_mom_def rk2_policy_def

lemma line_update:
  "update line_exponential =
     Inr (line_exponential\<lparr>control_points_t := Some [Mat [[0]], Mat [[1]]],
            momenta_t := Some [Mat [[1]], Mat [[1]]],
            norm_squared := Some 1,
            shoot_is_modified := False,
            template_data_t := Some [Mat [[0]], Mat [[1]]],
            flow_is_modified := False\<rparr>, [])"
  by (simp add: scenario_defs engine_defs gauss_defs tensor_defs)

section \<open>The shoot under the Euler policy\<close>




section \<open>The scenario of the line\<close>

text \<open>
  Claim C10. One control point at the origin of the line, momentum 1, Gaussian
  kernel of width 1, two time points, Euler policy (one step with \<open>dt = 1\<close>):
  \<^verbatim>\<open>update()\<close> succeeds, \<^verbatim>\<open>norm_squared\<close> is 1, and the template point placed at the
  origin is flowed to 1, a displacement of exactly 1.
\<close>

theorem line_scenario:
  "(case update line_exponential of
      Inl err \<Rightarrow> False
    | Inr (e, ws) \<Rightarrow>
        norm_squared e = Some 1 \<and>
        get_norm_squared e = ([], Some 1) \<and>
        initial_template_data e = Some (Mat [[0]]) \<and>
        get_template_data e None = Inr (Mat [[1]]) \<and>
        tsub (Mat [[1]]) (Mat [[0]]) = Mat [[1]])"
  by (simp add: line_update get_norm_squared_def get_template_data_def py_index_def tsub_def)
     (simp add: scenario_defs)

lemma plane_update:
  "update plane_exponential = Inr (plane_updated, [NothingToFlow, NothingToFlow])"
  by (simp add: scenario_defs engine_defs gauss_defs tensor_defs)

lemmas transport_defs = parallel_transport_def transport_body_def solve_momenta_def renormalize_def
  norm_approx_def
  diagonal_linalg_def diagonal_potrs_def

lemma plane_transport_first:
  "parallel_transport diagonal_linalg gaussian_kernel plane_updated (Mat [[0, 1]]) False =
     Inr (plane_transported, [Mat [[0, 1]], Vec [0, 1]], [])"
  by (simp add: scenario_defs transport_defs engine_defs gauss_defs tensor_defs Let_def)

lemma plane_transport_second:
  "parallel_transport diagonal_linalg gaussian_kernel plane_transported (Mat [[0, 1]]) False =
     Inr (plane_transported, [Mat [[0, 1]], Mat [[0, 1]]], [])"
  by (simp add: scenario_defs transport_defs engine_defs gauss_defs tensor_defs Let_def)

section \<open>What update leaves untouched\<close>

lemma flow_frame:
  "flow e = Inr e' \<Longrightarrow> \<exists>tds. e' = e\<lparr>template_data_t := Some tds\<rparr>"
  by (auto simp: flow_def split: option.splits if_splits sum.splits)

lemma shoot_frame:
  assumes "shoot e = Inr e'"
  shows "\<exists>cps moms ns. e' = e\<lparr>control_points_t := Some cps, momenta_t := Some moms, norm_squared := Some ns\<rparr>"
  using assms by (auto simp: shoot_def Let_def split: option.splits if_splits)

lemma flow_or_warn_frame:
  assumes "flow_or_warn e = Inr (e', ws)"
  shows "e' = e \<or> (\<exists>tds. e' = e\<lparr>template_data_t := Some tds, flow_is_modified := False\<rparr>)"
  using assms by (auto simp: flow_or_warn_def split: if_splits sum.splits dest!: flow_frame)

text \<open>
  A successful \<^verbatim>\<open>update\<close> keeps the inputs and clears the flag of the shoot. When
  the shoot was modified the cache is empty afterwards; when it was not, the
  norm, the shot trajectories and the cache are as before.
\<close>

lemma update_frame:
  assumes "update e = Inr (e', ws)"
  shows "kernel e' = kernel e \<and> number_of_time_points e' = number_of_time_points e \<and>
    initial_control_points e' = initial_control_points e \<and> initial_momenta e' = initial_momenta e \<and>
    initial_template_data e' = initial_template_data e \<and> use_rk2 e' = use_rk2 e \<and>
    \<not> shoot_is_modified e' \<and>
    (shoot_is_modified e \<longrightarrow> cholesky_kernel_matrices e' = []) \<and>
    (\<not> shoot_is_modified e \<longrightarrow>
       norm_squared e' = norm_squared e \<and> control_points_t e' = control_points_t e \<and>
       momenta_t e' = momenta_t e \<and> cholesky_kernel_matrices e' = cholesky_kernel_matrices e)"
proof (cases "shoot_is_modified e")
  case True
  from assms True obtain e1 e2 ws2 where
    s: "shoot (e\<lparr>cholesky_kernel_matrices := []\<rparr>) = Inr e1"
    and f: "flow_or_warn (e1\<lparr>shoot_is_modified := False\<rparr>) = Inr (e2, ws2)"
    and r: "e' = e2 \<or> (\<exists>ws3. flow_or_warn e2 = Inr (e', ws3))"
    by (auto simp: update_def split: option.splits if_splits sum.splits prod.splits)
  from shoot_frame [OF s] obtain cps moms ns where
    e1: "e1 = e\<lparr>cholesky_kernel_matrices := [], control_points_t := Some cps, momenta_t := Some moms,
           norm_squared := Some ns\<rparr>" by auto
  from flow_or_warn_frame [OF f] have
    e2: "e2 = e1\<lparr>shoot_is_modified := False\<rparr> \<or>
         (\<exists>tds. e2 = e1\<lparr>shoot_is_modified := False, template_data_t := Some tds, flow_is_modified := False\<rparr>)"
    by auto
  from r have
    e3: "e' = e2 \<or> (\<exists>tds. e' = e2\<lparr>template_data_t := Some tds, flow_is_modified := False\<rparr>)"
    using flow_or_warn_frame by blast
  show ?thesis using True e1 e2 e3 by auto
next
  case False
  from assms False have "e' = e \<or> (\<exists>ws3. flow_or_warn e = Inr (e', ws3))"
    by (auto simp: update_def split: option.splits if_splits sum.splits prod.splits)
  then have "e' = e \<or> (\<exists>tds. e' = e\<lparr>template_data_t := Some tds, flow_is_modified := False\<rparr>)"
    using flow_or_warn_frame by blast
  then show ?thesis using False by auto
qed

section \<open>The norm under repeated and flow-only updates\<close>

text \<open>
  Claim C9. Let \<^verbatim>\<open>update()\<close> have run on an exponential with valid initial control
  points and momenta (non-empty, a kernel, \<open>T \<ge> 2\<close>), leaving \<open>e1\<close>. Then
  \<^verbatim>\<open>norm_squared\<close> is \<open>mom\<^sub>0 . K(cp\<^sub>0, cp\<^sub>0, mom\<^sub>0)\<close>; running \<^verbatim>\<open>update()\<close> again with
  the inputs unchanged succeeds and leaves \<^verbatim>\<open>norm_squared\<close> as it is; and a
  flow-only update (\<^verbatim>\<open>set_initial_template_data\<close> followed by \<^verbatim>\<open>update()\<close>) succeeds
  and leaves \<^verbatim>\<open>norm_squared\<close> as it is.
\<close>

theorem norm_squared_frame:
  assumes "shoot_is_modified e" "number_of_time_points e = Some T" "2 \<le> T" "kernel e = Some K"
    "initial_control_points e = Some cp0" "0 < tlen cp0"
    "initial_momenta e = Some mom0" "0 < tlen mom0"
    "update e = Inr (e1, ws1)"
  shows "norm_squared e1 = Some (tdot mom0 (convolve K cp0 cp0 mom0)) \<and>
    (\<exists>e2 ws2. update e1 = Inr (e2, ws2) \<and> norm_squared e2 = norm_squared e1) \<and>
    (\<exists>e3 ws3. update (set_initial_template_data (Some td) e1) = Inr (e3, ws3) \<and>
       norm_squared e3 = norm_squared e1)"
proof -
  let ?traj = "shoot_loop K (rk2_policy e) (1 / real_of_int (T - 1)) (nat (T - 1)) cp0 mom0"
  from update_shoot_stale [OF assms(1-8)] assms(9)
  have e1: "control_points_t e1 = Some (fst ?traj)" "momenta_t e1 = Some (snd ?traj)"
    "norm_squared e1 = Some (tdot mom0 (convolve K cp0 cp0 mom0))" "\<not> shoot_is_modified e1"
    "kernel e1 = Some K" "number_of_time_points e1 = Some T"
    "initial_template_data e1 = initial_template_data e"
    "initial_template_data e \<noteq> None \<longrightarrow> \<not> flow_is_modified e1"
    using assms(2,4) by auto
  have n: "Suc (nat (T - 1)) = nat T" using assms(3) by simp
  have len: "length (fst ?traj) = nat T" "length (snd ?traj) = nat T"
    using shoot_loop_length [of K "rk2_policy e" "1 / real_of_int (T - 1)" "nat (T - 1)" cp0 mom0] n
    by simp_all
  have T0: "0 < T" using assms(3) by simp
  have again: "\<exists>e2 ws2. update e1 = Inr (e2, ws2)"
    using e1 T0 by (cases "initial_template_data e") (auto simp: update_def flow_or_warn_def)
  let ?e = "set_initial_template_data (Some td) e1"
  have "\<exists>tds. flow ?e = Inr (?e\<lparr>template_data_t := Some tds\<rparr>) \<and> length tds = nat T \<and> tds ! 0 = td"
    by (rule flow_succeeds [where cps = "fst ?traj" and moms = "snd ?traj" and K = K and T = T])
       (use e1 len assms(3) in \<open>simp_all add: set_initial_template_data_def\<close>)
  then have flowonly: "\<exists>e3 ws3. update ?e = Inr (e3, ws3)"
    using e1 T0 by (auto simp: update_def flow_or_warn_def set_initial_template_data_def)
  have ns: "\<not> shoot_is_modified ?e" "norm_squared ?e = norm_squared e1"
    using e1 by (simp_all add: set_initial_template_data_def)
  show ?thesis
    using e1(3,4) again flowonly ns update_frame by metis
qed

theorem norm_squared_frame_witness:
  "\<exists>e1 ws1. update line_exponential = Inr (e1, ws1) \<and> norm_squared e1 = Some 1 \<and>
     (\<exists>e2 ws2. update e1 = Inr (e2, ws2) \<and> norm_squared e2 = Some 1) \<and>
     (\<exists>e3 ws3. update (set_initial_template_data (Some (Mat [[2]])) e1) = Inr (e3, ws3) \<and>
        norm_squared e3 = Some 1)"
proof -
  let ?e1 = "line_exponential\<lparr>control_points_t := Some [Mat [[0]], Mat [[1]]],
            momenta_t := Some [Mat [[1]], Mat [[1]]],
            norm_squared := Some 1,
            shoot_is_modified := False,
            template_data_t := Some [Mat [[0]], Mat [[1]]],
            flow_is_modified := False\<rparr>"
  have "shoot_is_modified line_exponential" "number_of_time_points line_exponential = Some 2"
    "kernel line_exponential = Some (gaussian_kernel 1)"
    "initial_control_points line_exponential = Some (Mat [[0]])"
    "initial_momenta line_exponential = Some (Mat [[1]])"
    by (simp_all add: scenario_defs)
  from norm_squared_frame [OF this(1,2) _ this(3,4) _ this(5) _ line_update, of "Mat [[2]]"]
  have "(\<exists>e2 ws2. update ?e1 = Inr (e2, ws2) \<and> norm_squared e2 = Some 1) \<and>
     (\<exists>e3 ws3. update (set_initial_template_data (Some (Mat [[2]])) ?e1) = Inr (e3, ws3) \<and>
        norm_squared e3 = Some 1)"
    by simp
  then show ?thesis
    by (intro exI [of _ ?e1] exI [of _ "[]"]) (simp add: line_update)
qed

section \<open>Reading stale quantities\<close>

text \<open>
  Claim C6, as stated, fails. After an update of the scenario of the line and a
  \<^verbatim>\<open>set_initial_control_points\<close> with no update after it, the shoot is stale, yet
  \<^verbatim>\<open>get_norm_squared()\<close> returns the stored norm beside a warning and
  \<^verbatim>\<open>get_template_data()\<close> returns the stored snapshot: neither faults.
\<close>

theorem stale_reads_counterexample:
  "(case update line_exponential of
      Inl err \<Rightarrow> False
    | Inr (e, ws) \<Rightarrow>
        shoot_is_modified (set_initial_control_points (Some (Mat [[5]])) e) \<and>
        get_norm_squared (set_initial_control_points (Some (Mat [[5]])) e) =
          ([NormOfModifiedShoot], Some 1) \<and>
        get_template_data (set_initial_control_points (Some (Mat [[5]])) e) None =
          Inr (Mat [[1]]))"
  by (simp add: line_update get_norm_squared_def get_template_data_def py_index_def
        set_initial_control_points_def)

text \<open>
  Claim C6, amended. \<^verbatim>\<open>get_norm_squared()\<close> never faults: it returns the stored
  \<^verbatim>\<open>norm_squared\<close>, beside a warning when the shoot is stale.
  \<^verbatim>\<open>get_template_data\<close> faults (a failed assertion) whenever the flow is stale, as
  it is on a new exponential after \<^verbatim>\<open>set_initial_control_points\<close> and before any
  \<^verbatim>\<open>update()\<close>.
\<close>

theorem stale_reads:
  "get_norm_squared e = ((if shoot_is_modified e then [NormOfModifiedShoot] else []), norm_squared e) \<and>
   (flow_is_modified e \<longrightarrow> get_template_data e i = Inl AssertionError) \<and>
   get_template_data (set_initial_control_points cps Exponential_init) i = Inl AssertionError"
  by (simp add: get_norm_squared_def get_template_data_def set_initial_control_points_def
        Exponential_init_def)

theorem stale_reads_witness:
  "get_norm_squared (set_initial_control_points (Some (Mat [[0]])) Exponential_init) =
     ([NormOfModifiedShoot], None) \<and>
   flow_is_modified (set_initial_control_points (Some (Mat [[0]])) Exponential_init) \<and>
   get_template_data (set_initial_control_points (Some (Mat [[0]])) Exponential_init) None =
     Inl AssertionError"
  using stale_reads [of "set_initial_control_points (Some (Mat [[0]])) Exponential_init" None
      "Some (Mat [[0]])"]
  by (simp add: set_initial_control_points_def Exponential_init_def)

section \<open>The cache of Cholesky factors\<close>




section \<open>Two transports in a row\<close>

text \<open>
  The two branches of the solve: the one taken on a full cache returns the
  solution as it is, the other one squeezes it.
\<close>

lemma solve_momenta_cached:
  "int (length cache) = T - 1 \<Longrightarrow> i < length cache \<Longrightarrow>
   solve_momenta LA Kx T cache cp_next i v = Inr (potrs LA v (cache ! i), cache)"
  by (simp add: solve_momenta_def)

lemma solve_momenta_fresh:
  "int (length cache) \<noteq> T - 1 \<Longrightarrow>
   solve_momenta LA Kx T cache cp_next i v =
     Inr (squeeze (potrs LA v (potrf LA (get_kernel_matrix Kx cp_next))),
          cache @ [potrf LA (get_kernel_matrix Kx cp_next)])"
  by (simp add: solve_momenta_def Let_def)

text \<open>
  Claim C7 at one control point of the plane, two time points, no tangential
  component. The first transport finds the cache empty, computes the factor and
  squeezes the solution, so the transported momenta of step 1 has rank 1 (shape
  (2)); the second finds the cache full, takes the stored factor and does not
  squeeze, so the same momenta has rank 2 (shape (1, 2)). The entries agree, the
  shapes do not, and the two trajectories returned differ.
\<close>

theorem transport_twice:
  "update plane_exponential = Inr (plane_updated, [NothingToFlow, NothingToFlow]) \<and>
   parallel_transport diagonal_linalg gaussian_kernel plane_updated (Mat [[0, 1]]) False =
     Inr (plane_transported, [Mat [[0, 1]], Vec [0, 1]], []) \<and>
   parallel_transport diagonal_linalg gaussian_kernel plane_transported (Mat [[0, 1]]) False =
     Inr (plane_transported, [Mat [[0, 1]], Mat [[0, 1]]], []) \<and>
   [Mat [[0, 1]], Vec [0, 1]] \<noteq> [Mat [[0, 1]], Mat [[0, 1]]]"
  by (simp add: plane_update plane_transport_first plane_transport_second)

section \<open>The renormalization step of the transport\<close>

lemma flat_tmap: "flat (tmap f a) = map f (flat a)"
  by (cases a) (simp_all add: map_concat)

lemma sum_list_map2_scale:
  "sum_list (map2 (*) (map (\<lambda>x. c * x) xs) (map (\<lambda>y. d * y) ys)) =
   c * d * sum_list (map2 (*) xs (ys :: real list))"
proof (induction xs arbitrary: ys)
  case Nil
  then show ?case by simp
next
  case (Cons x xs)
  then show ?case by (cases ys) (simp_all add: algebra_simps)
qed

lemma tdot_tscale: "tdot (tscale c a) (tscale d b) = c * d * tdot a b"
  by (simp add: tdot_def tscale_def flat_tmap sum_list_map2_scale)

lemma tmap_tmap: "tmap f (tmap g a) = tmap (\<lambda>x. f (g x)) a"
  by (cases a) (simp_all add: comp_def)

lemma tdiv_tscale: "tdiv (tscale t a) n = tscale (t / n) a"
  by (simp add: tdiv_def tscale_def tmap_tmap)

lemma tneg_tscale: "tneg m = tscale (- 1) m"
  by (cases m) (simp_all add: tneg_def tscale_def)

lemma tscale_tscale: "tscale a (tscale b m) = tscale (a * b) m"
  by (simp add: tscale_def tmap_tmap mult.assoc)

lemma tdot_scaled:
  "k' = tscale a k \<Longrightarrow> tdot (tscale a m) k' = a\<^sup>2 * tdot m k"
  by (simp add: tdot_tscale power2_eq_square)

lemma tdot_scaled_neg:
  "k' = tscale a (tneg k) \<Longrightarrow> tdot (tscale a (tneg m)) k' = a\<^sup>2 * tdot m k"
  by (simp add: tneg_tscale tscale_tscale tdot_tscale power2_eq_square)

text \<open>
  Claim C2 against the code. Let \<open>approx\<close> be the momenta of a step once its
  component along the geodesic is removed, \<open>n\<close> its squared norm
  \<open>approx . K(cp, cp, approx)\<close> (the actual norm, not zero), and \<open>t\<close> the target
  norm. The code multiplies \<open>approx\<close> by \<open>t / n\<close>. For a kernel linear in the
  momenta the squared norm of the result is \<open>t\<^sup>2 / n\<close>, which is the target \<open>t\<close>
  only when \<open>n = t\<close> already (or \<open>t = 0\<close>): the quotient of the squared norms
  stands where its square root is needed, and the norm is not preserved.
\<close>

theorem renormalize_norm:
  assumes "approx = tsub_inplace a0 (tscale (tdot a0 (convolve Kx cp cp mom) / ns) mom)"
    and "n = tdot approx (convolve Kx cp cp approx)"
    and "n \<noteq> 0"
    and "convolve Kx cp cp (tscale (t / n) approx) = tscale (t / n) (convolve Kx cp cp approx)"
  shows "fst (renormalize Kx ns t cp mom a0) = tscale (t / n) approx \<and>
    tdot (fst (renormalize Kx ns t cp mom a0))
         (convolve Kx cp cp (fst (renormalize Kx ns t cp mom a0))) = t * t / n \<and>
    (tdot (fst (renormalize Kx ns t cp mom a0))
         (convolve Kx cp cp (fst (renormalize Kx ns t cp mom a0))) = t
       \<longleftrightarrow> t = 0 \<or> n = t)"
proof -
  have r: "fst (renormalize Kx ns t cp mom a0) = tscale (t / n) approx"
    using assms(1,2) by (simp add: renormalize_def Let_def tdiv_tscale)
  have q: "tdot (tscale (t / n) approx) (convolve Kx cp cp (tscale (t / n) approx)) = t * t / n"
  proof -
    have "tdot (tscale (t / n) approx) (convolve Kx cp cp (tscale (t / n) approx)) =
        tdot (tscale (t / n) approx) (tscale (t / n) (convolve Kx cp cp approx))"
      by (simp only: assms(4))
    also have "\<dots> = (t / n) * (t / n) * n"
      by (simp only: tdot_tscale assms(2) [symmetric])
    also have "\<dots> = t * t / n"
      using assms(3) by (simp add: field_simps)
    finally show ?thesis .
  qed
  have "(t * t / n = t) \<longleftrightarrow> (t = 0 \<or> n = t)"
    using assms(3) by (auto simp: field_simps)
  then show ?thesis using r q by simp
qed

text \<open>
  At one control point of the plane, a momenta of squared norm 1 and a target of
  4: the step returns a momenta of squared norm 16.
\<close>

theorem renormalize_norm_witness:
  "fst (renormalize (gaussian_kernel 1) 1 4 (Mat [[0, 0]]) (Mat [[1, 0]]) (Mat [[0, 1]])) = Mat [[0, 4]] \<and>
   tdot (Mat [[0, 1]]) (convolve (gaussian_kernel 1) (Mat [[0, 0]]) (Mat [[0, 0]]) (Mat [[0, 1]])) = 1 \<and>
   tdot (Mat [[0, 4]]) (convolve (gaussian_kernel 1) (Mat [[0, 0]]) (Mat [[0, 0]]) (Mat [[0, 4]])) = 16"
  using renormalize_norm [of "Mat [[0, 1]]" "Mat [[0, 1]]" "gaussian_kernel 1" "Mat [[0, 0]]"
      "Mat [[1, 0]]" 1 1 4]
  by (simp add: gauss_defs tensor_defs)

section \<open>Properties of the geodesic\<close>

lemmas geodesic_defs = line_geodesic_def set_template_data_t0_def set_momenta_t0_def
  set_control_points_t0_def set_tmax_def set_tmin_def set_t0_def
  geodesic_set_use_rk2_def geodesic_set_kernel_def Geodesic_init_def geodesic_update_def
  update_side_def side_number_of_time_points_def py_int_def

lemma shoot_norm:
  "shoot e = Inr e' \<Longrightarrow> initial_control_points e = Some cp0 \<Longrightarrow> initial_momenta e = Some mom0 \<Longrightarrow>
   kernel e = Some K \<Longrightarrow> norm_squared e' = Some (tdot mom0 (convolve K cp0 cp0 mom0))"
  by (auto simp: shoot_def Let_def split: option.splits if_splits)

lemma update_norm:
  assumes "update e = Inr (e', ws)" "shoot_is_modified e"
    "initial_control_points e = Some cp0" "initial_momenta e = Some mom0" "kernel e = Some K"
  shows "norm_squared e' = Some (tdot mom0 (convolve K cp0 cp0 mom0))"
proof -
  from assms(1,2) obtain e1 e2 ws2 where
    s: "shoot (e\<lparr>cholesky_kernel_matrices := []\<rparr>) = Inr e1"
    and f: "flow_or_warn (e1\<lparr>shoot_is_modified := False\<rparr>) = Inr (e2, ws2)"
    and r: "e' = e2 \<or> (\<exists>ws3. flow_or_warn e2 = Inr (e', ws3))"
    by (auto simp: update_def split: option.splits if_splits sum.splits prod.splits)
  have n1: "norm_squared e1 = Some (tdot mom0 (convolve K cp0 cp0 mom0))"
    using shoot_norm [OF s] assms(3-5) by simp
  from flow_or_warn_frame [OF f] n1
  have n2: "norm_squared e2 = Some (tdot mom0 (convolve K cp0 cp0 mom0))" by auto
  from r show ?thesis
  proof
    assume "e' = e2" with n2 show ?thesis by simp
  next
    assume "\<exists>ws3. flow_or_warn e2 = Inr (e', ws3)"
    then obtain ws3 where "flow_or_warn e2 = Inr (e', ws3)" by blast
    from flow_or_warn_frame [OF this] n2 show ?thesis by auto
  qed
qed

text \<open>
  What a side of \<^verbatim>\<open>Geodesic.update\<close> leaves: the number of time points it was
  given, and, when the side was updated with the shoot of the geodesic modified,
  the norm of the scaled momenta.
\<close>

lemma update_side_result:
  assumes "update_side g e n scaled = Inr (e', ws)"
  shows "number_of_time_points e' = Some n \<and> kernel e' = kernel e \<and>
    (1 < n \<longrightarrow> \<not> shoot_is_modified e') \<and>
    (1 < n \<and> geo_shoot_is_modified g \<longrightarrow>
       (\<forall>cp mom K. control_points_t0 g = Some cp \<and> momenta_t0 g = Some mom \<and> kernel e = Some K \<longrightarrow>
          norm_squared e' = Some (tdot (scaled mom) (convolve K cp cp (scaled mom)))))"
proof (cases "1 < n")
  case False
  then show ?thesis using assms
    by (auto simp: update_side_def Let_def set_initial_control_points_def set_initial_momenta_def
          set_initial_template_data_def split: if_splits option.splits)
next
  case True
  let ?e1 = "e\<lparr>number_of_time_points := Some n\<rparr>"
  let ?e2 = "\<lambda>m. set_initial_control_points (control_points_t0 g) (set_initial_momenta (Some (scaled m)) ?e1)"
  let ?e3 = "\<lambda>x. if geo_flow_is_modified g then set_initial_template_data (template_data_t0 g) x else x"
  show ?thesis
  proof (cases "geo_shoot_is_modified g")
    case False
    with True assms have u: "update (?e3 ?e1) = Inr (e', ws)"
      by (simp add: update_side_def Let_def)
    from update_frame [OF u] True False show ?thesis
      by (auto simp: set_initial_template_data_def)
  next
    case sh: True
    with True assms obtain m where m: "momenta_t0 g = Some m"
      and u: "update (?e3 (?e2 m)) = Inr (e', ws)"
      by (auto simp: update_side_def Let_def split: option.splits)
    have st: "shoot_is_modified (?e3 (?e2 m))" "initial_momenta (?e3 (?e2 m)) = Some (scaled m)"
      "initial_control_points (?e3 (?e2 m)) = control_points_t0 g"
      "kernel (?e3 (?e2 m)) = kernel e" "number_of_time_points (?e3 (?e2 m)) = Some n"
      by (simp_all add: set_initial_template_data_def set_initial_control_points_def
            set_initial_momenta_def)
    from update_frame [OF u] st have fr: "number_of_time_points e' = Some n" "kernel e' = kernel e"
      "\<not> shoot_is_modified e'" by simp_all
    have "norm_squared e' = Some (tdot (scaled mom) (convolve K cp cp (scaled mom)))"
      if "control_points_t0 g = Some cp" "momenta_t0 g = Some mom" "kernel e = Some K" for cp mom K
      using update_norm [OF u st(1), of cp "scaled m" K] st that m by simp
    with fr show ?thesis by blast
  qed
qed

lemma geodesic_update_sides:
  assumes "geodesic_update g = Inr (g', ws)" "t0 g = Some t" "tmin g = Some lo" "tmax g = Some hi"
    "concentration_of_time_points g = Some c"
  shows "lo \<le> t \<and> t \<le> hi \<and>
    (\<exists>wsb. update_side g (backward_exponential g) (side_number_of_time_points (t - lo) c)
              (\<lambda>mom. tscale (t - lo) (tneg mom)) = Inr (backward_exponential g', wsb)) \<and>
    (\<exists>wsf. update_side g (forward_exponential g) (side_number_of_time_points (hi - t) c)
              (\<lambda>mom. tscale (hi - t) mom) = Inr (forward_exponential g', wsf))"
  using assms
  by (auto simp: geodesic_update_def split: if_splits sum.splits prod.splits)

lemma side_number_floor:
  assumes "0 \<le> d" "0 < c"
  shows "side_number_of_time_points d c = \<lfloor>c * d + 1 / 2\<rfloor> + 1"
proof -
  have nn: "0 \<le> d * c" using assms by simp
  have "d * c + 1.5 = (c * d + 1 / 2) + of_int 1" by (simp add: mult.commute)
  then have "\<lfloor>d * c + 1.5\<rfloor> = \<lfloor>c * d + 1 / 2\<rfloor> + 1" by (simp only: floor_add_int)
  moreover have "0 \<le> \<lfloor>c * d + 1 / 2\<rfloor>" using nn by (simp add: mult.commute)
  ultimately show ?thesis using nn
    by (simp add: side_number_of_time_points_def py_int_def)
qed

section \<open>The number of time points of a side\<close>

text \<open>
  Claim C3, as stated, fails. With \<open>tmin = 0\<close>, \<open>t0 = 3/5\<close> and a concentration
  of 1 the backward exponential receives \<open>int(0.6 + 1.5) = 2\<close> time points, while
  \<open>max(1, round(0.6 + 0.5))\<close> is 1.
\<close>

theorem side_time_points_counterexample:
  "(case geodesic_update (line_geodesic 0 (3 / 5) (6 / 5) 1) of
      Inl err \<Rightarrow> False
    | Inr (g, ws) \<Rightarrow> number_of_time_points (backward_exponential g) = Some 2) \<and>
   spec_number_of_time_points (3 / 5 - 0) 1 = 1"
  by (simp add: geodesic_defs scenario_defs engine_defs gauss_defs tensor_defs
        spec_number_of_time_points_def py_round_def)

text \<open>
  Claim C3, amended. After \<^verbatim>\<open>Geodesic.update\<close> (which requires
  \<open>tmin \<le> t0 \<le> tmax\<close>), with a positive concentration \<open>c\<close>, each side's
  exponential has \<open>number_of_time_points = max(1, int(c dt + 1.5))\<close>, where \<open>dt\<close> is
  the elapsed time of the side and \<open>int\<close> truncates; this number is
  \<open>floor(c dt + 1/2) + 1\<close>.
\<close>

theorem side_time_points:
  assumes "geodesic_update g = Inr (g', ws)" "t0 g = Some t" "tmin g = Some lo" "tmax g = Some hi"
    "concentration_of_time_points g = Some c" "0 < c"
  shows "lo \<le> t \<and> t \<le> hi \<and>
    number_of_time_points (backward_exponential g') = Some (max 1 (py_int ((t - lo) * c + 1.5))) \<and>
    number_of_time_points (forward_exponential g') = Some (max 1 (py_int ((hi - t) * c + 1.5))) \<and>
    max 1 (py_int ((t - lo) * c + 1.5)) = \<lfloor>c * (t - lo) + 1 / 2\<rfloor> + 1 \<and>
    max 1 (py_int ((hi - t) * c + 1.5)) = \<lfloor>c * (hi - t) + 1 / 2\<rfloor> + 1"
proof -
  from geodesic_update_sides [OF assms(1-5)] obtain wsb wsf where
    le: "lo \<le> t" "t \<le> hi"
    and b: "update_side g (backward_exponential g) (side_number_of_time_points (t - lo) c)
              (\<lambda>mom. tscale (t - lo) (tneg mom)) = Inr (backward_exponential g', wsb)"
    and f: "update_side g (forward_exponential g) (side_number_of_time_points (hi - t) c)
              (\<lambda>mom. tscale (hi - t) mom) = Inr (forward_exponential g', wsf)"
    by blast
  have "number_of_time_points (backward_exponential g') = Some (side_number_of_time_points (t - lo) c)"
    "number_of_time_points (forward_exponential g') = Some (side_number_of_time_points (hi - t) c)"
    using update_side_result [OF b] update_side_result [OF f] by simp_all
  moreover have "side_number_of_time_points (t - lo) c = \<lfloor>c * (t - lo) + 1 / 2\<rfloor> + 1"
    "side_number_of_time_points (hi - t) c = \<lfloor>c * (hi - t) + 1 / 2\<rfloor> + 1"
    using le assms(6) by (simp_all add: side_number_floor)
  ultimately show ?thesis using le
    by (simp add: side_number_of_time_points_def)
qed

lemma line_geodesic_mid:
  "(case geodesic_update (line_geodesic 0 (3 / 5) (6 / 5) 1) of
      Inl err \<Rightarrow> False
    | Inr (g, ws) \<Rightarrow>
        number_of_time_points (backward_exponential g) = Some 2 \<and>
        number_of_time_points (forward_exponential g) = Some 2)"
  by (simp add: geodesic_defs scenario_defs engine_defs gauss_defs tensor_defs)

theorem side_time_points_witness:
  "\<exists>g' ws. geodesic_update (line_geodesic 0 (3 / 5) (6 / 5) 1) = Inr (g', ws) \<and>
     number_of_time_points (backward_exponential g') = Some 2 \<and>
     number_of_time_points (forward_exponential g') = Some 2"
proof -
  from line_geodesic_mid obtain g' ws where
    u: "geodesic_update (line_geodesic 0 (3 / 5) (6 / 5) 1) = Inr (g', ws)"
    by (cases "geodesic_update (line_geodesic 0 (3 / 5) (6 / 5) 1)") auto
  from side_time_points [OF u, of "3 / 5" 0 "6 / 5" 1]
  have "number_of_time_points (backward_exponential g') = Some 2 \<and>
     number_of_time_points (forward_exponential g') = Some 2"
    by (simp add: geodesic_defs)
  with u show ?thesis by blast
qed

section \<open>The norm of a geodesic\<close>

text \<open>
  Claim C4, as stated, fails. With \<open>tmin = 0\<close>, \<open>t0 = 1\<close>, \<open>tmax = 3\<close> and a
  concentration of 1 both sides have more than one time point (2 and 3);
  \<^verbatim>\<open>get_norm_squared()\<close> returns the forward norm 4, and the backward norm is 1.
\<close>

theorem geodesic_norm_squared_counterexample:
  "(case geodesic_update (line_geodesic 0 1 3 1) of
      Inl err \<Rightarrow> False
    | Inr (g, ws) \<Rightarrow>
        number_of_time_points (backward_exponential g) = Some 2 \<and>
        number_of_time_points (forward_exponential g) = Some 3 \<and>
        geodesic_get_norm_squared g = ([], Some 4) \<and>
        norm_squared (forward_exponential g) = Some 4 \<and>
        norm_squared (backward_exponential g) = Some 1)"
  by (simp add: geodesic_defs scenario_defs engine_defs gauss_defs tensor_defs
        geodesic_get_norm_squared_def get_norm_squared_def flow_loop.simps upt_rec numeral_3_eq_3)

text \<open>
  Claim C4, amended. After an update of a geodesic whose two sides each have more
  than one time point, \<^verbatim>\<open>get_norm_squared()\<close> returns the forward exponential's
  \<^verbatim>\<open>norm_squared\<close>, without a warning. When that update found the shoot of the
  geodesic modified (a setter of the times, control points or momenta was called
  since the update before), the value is \<open>m\<^sub>f . K(cp, cp, m\<^sub>f)\<close> for the forward
  momenta \<open>m\<^sub>f = mom (tmax - t0)\<close>, and the backward exponential's is
  \<open>m\<^sub>b . K(cp, cp, m\<^sub>b)\<close> for \<open>m\<^sub>b = - mom (t0 - tmin)\<close>; where the kernel is linear
  in these momenta the two are \<open>(tmax - t0)\<^sup>2\<close> and \<open>(t0 - tmin)\<^sup>2\<close> times
  \<open>mom . K(cp, cp, mom)\<close>. Nothing makes them equal.
\<close>

theorem geodesic_norm_squared:
  assumes "geodesic_update g = Inr (g', ws)"
    "t0 g = Some t" "tmin g = Some lo" "tmax g = Some hi" "concentration_of_time_points g = Some c"
    "1 < side_number_of_time_points (t - lo) c" "1 < side_number_of_time_points (hi - t) c"
  shows "geodesic_get_norm_squared g' = ([], norm_squared (forward_exponential g')) \<and>
    (geo_shoot_is_modified g \<and> control_points_t0 g = Some cp \<and> momenta_t0 g = Some mom \<and>
     kernel (backward_exponential g) = Some Kb \<and> kernel (forward_exponential g) = Some Kf \<longrightarrow>
       norm_squared (forward_exponential g') =
         Some (tdot (tscale (hi - t) mom) (convolve Kf cp cp (tscale (hi - t) mom))) \<and>
       norm_squared (backward_exponential g') =
         Some (tdot (tscale (t - lo) (tneg mom)) (convolve Kb cp cp (tscale (t - lo) (tneg mom)))) \<and>
       (convolve Kf cp cp (tscale (hi - t) mom) = tscale (hi - t) (convolve Kf cp cp mom) \<longrightarrow>
          norm_squared (forward_exponential g') =
            Some ((hi - t)\<^sup>2 * tdot mom (convolve Kf cp cp mom))) \<and>
       (convolve Kb cp cp (tscale (t - lo) (tneg mom)) =
          tscale (t - lo) (tneg (convolve Kb cp cp mom)) \<longrightarrow>
          norm_squared (backward_exponential g') =
            Some ((t - lo)\<^sup>2 * tdot mom (convolve Kb cp cp mom))))"
proof -
  from geodesic_update_sides [OF assms(1-5)] obtain wsb wsf where
    b: "update_side g (backward_exponential g) (side_number_of_time_points (t - lo) c)
              (\<lambda>mom. tscale (t - lo) (tneg mom)) = Inr (backward_exponential g', wsb)"
    and f: "update_side g (forward_exponential g) (side_number_of_time_points (hi - t) c)
              (\<lambda>mom. tscale (hi - t) mom) = Inr (forward_exponential g', wsf)"
    by blast
  from update_side_result [OF f] assms(7)
  have clean: "\<not> shoot_is_modified (forward_exponential g')" by simp
  have first: "geodesic_get_norm_squared g' = ([], norm_squared (forward_exponential g'))"
    using clean by (simp add: geodesic_get_norm_squared_def get_norm_squared_def)
  have rest: "norm_squared (forward_exponential g') =
         Some (tdot (tscale (hi - t) mom) (convolve Kf cp cp (tscale (hi - t) mom))) \<and>
       norm_squared (backward_exponential g') =
         Some (tdot (tscale (t - lo) (tneg mom)) (convolve Kb cp cp (tscale (t - lo) (tneg mom)))) \<and>
       (convolve Kf cp cp (tscale (hi - t) mom) = tscale (hi - t) (convolve Kf cp cp mom) \<longrightarrow>
          norm_squared (forward_exponential g') =
            Some ((hi - t)\<^sup>2 * tdot mom (convolve Kf cp cp mom))) \<and>
       (convolve Kb cp cp (tscale (t - lo) (tneg mom)) =
          tscale (t - lo) (tneg (convolve Kb cp cp mom)) \<longrightarrow>
          norm_squared (backward_exponential g') =
            Some ((t - lo)\<^sup>2 * tdot mom (convolve Kb cp cp mom)))"
    if h: "geo_shoot_is_modified g" "control_points_t0 g = Some cp" "momenta_t0 g = Some mom"
      "kernel (backward_exponential g) = Some Kb" "kernel (forward_exponential g) = Some Kf"
  proof -
    from update_side_result [OF f] assms(7) h
    have ff: "norm_squared (forward_exponential g') =
         Some (tdot (tscale (hi - t) mom) (convolve Kf cp cp (tscale (hi - t) mom)))"
      by auto
    from update_side_result [OF b] assms(6) h
    have bb: "norm_squared (backward_exponential g') =
         Some (tdot (tscale (t - lo) (tneg mom)) (convolve Kb cp cp (tscale (t - lo) (tneg mom))))"
      by auto
    have fl: "norm_squared (forward_exponential g') =
            Some ((hi - t)\<^sup>2 * tdot mom (convolve Kf cp cp mom))"
      if "convolve Kf cp cp (tscale (hi - t) mom) = tscale (hi - t) (convolve Kf cp cp mom)"
      using ff tdot_scaled [OF that] by simp
    have bl: "norm_squared (backward_exponential g') =
            Some ((t - lo)\<^sup>2 * tdot mom (convolve Kb cp cp mom))"
      if "convolve Kb cp cp (tscale (t - lo) (tneg mom)) =
          tscale (t - lo) (tneg (convolve Kb cp cp mom))"
      using bb tdot_scaled_neg [OF that] by simp
    show ?thesis
      using ff bb fl bl by blast
  qed
  show ?thesis using first rest by blast
qed

lemma line_geodesic_wide:
  "\<exists>g' ws. geodesic_update (line_geodesic 0 1 3 1) = Inr (g', ws)"
proof -
  have "(case geodesic_update (line_geodesic 0 1 3 1) of Inl err \<Rightarrow> False | Inr r \<Rightarrow> True)"
    by (simp add: geodesic_defs scenario_defs engine_defs gauss_defs tensor_defs
          flow_loop.simps upt_rec numeral_3_eq_3)
  then show ?thesis
    by (cases "geodesic_update (line_geodesic 0 1 3 1)") auto
qed

theorem geodesic_norm_squared_witness:
  "\<exists>g' ws. geodesic_update (line_geodesic 0 1 3 1) = Inr (g', ws) \<and>
     geodesic_get_norm_squared g' = ([], Some 4) \<and>
     norm_squared (forward_exponential g') = Some 4 \<and>
     norm_squared (backward_exponential g') = Some 1"
proof -
  from line_geodesic_wide
  obtain g' ws where u: "geodesic_update (line_geodesic 0 1 3 1) = Inr (g', ws)" by blast
  from geodesic_norm_squared [OF u, of 1 0 3 1 "Mat [[0]]" "Mat [[1]]" "gaussian_kernel 1" "gaussian_kernel 1"]
  have "geodesic_get_norm_squared g' = ([], Some 4) \<and>
     norm_squared (forward_exponential g') = Some 4 \<and>
     norm_squared (backward_exponential g') = Some 1"
    by (simp add: geodesic_defs scenario_defs gauss_defs tensor_defs)
  with u show ?thesis by blast
qed

section \<open>The template at the reference time\<close>

lemmas reading_defs = geodesic_get_template_data_def get_times_def side_times_def linspace_def
  get_template_trajectory_def side_template_def argmin_def get_template_data_def py_index_def

text \<open>
  Claim C5 at \<open>tmin = t0 = 0\<close>, \<open>tmax = 1\<close>, concentration 1. The backward side
  has one time point and is skipped; the forward side has two. The spliced time
  axis is the forward one less its first sample, that is \<open>[1]\<close>: the reference
  time itself is not on it. \<^verbatim>\<open>get_template_data(t0)\<close> returns the forward snapshot
  of index 1, the template after one step (at 1), and not the initial template
  (at 0), the forward snapshot of index 0.
\<close>

theorem template_at_reference_time:
  "(case geodesic_update (line_geodesic 0 0 1 1) of
      Inl err \<Rightarrow> False
    | Inr (g, ws) \<Rightarrow>
        number_of_time_points (backward_exponential g) = Some 1 \<and>
        number_of_time_points (forward_exponential g) = Some 2 \<and>
        template_data_t0 g = Some (Mat [[0]]) \<and>
        get_template_data (forward_exponential g) (Some 0) = Inr (Mat [[0]]) \<and>
        get_times g = Inr [1] \<and>
        geodesic_get_template_data g 0 = Inr (Vec [1], []))"
  by (simp add: geodesic_defs scenario_defs engine_defs gauss_defs tensor_defs reading_defs
        upt_rec numeral_2_eq_2)

end
